theory Spec2Isabelle
  imports Main
begin

section \<open>Python values and exceptions\<close>

text \<open>
  The values that reach the client as parameters and that come back as parsed JSON:
  \<open>None\<close>, booleans, integers, strings, lists and dictionaries with string keys. A
  \<open>str\<close> is the list of its code points, one \<open>char\<close> each (code points below 256), so
  \<open>length\<close> is Python's \<open>len\<close>. A dictionary is the list of its items in insertion
  order. Floating-point values are outside the model.
\<close>

datatype pyval =
    PNone
  | PBool bool
  | PInt int
  | PStr string
  | PList "pyval list"
  | PDict "(string \<times> pyval) list"

text \<open>
  \<open>ZipcodesAPIClientError(message, status_code, response)\<close>, its subclass
  \<open>ValidationError(errors)\<close>, and \<open>Uncaught\<close> for an exception of any other class (named by
  the string) that leaves a method of the client.
\<close>

datatype exn =
    ZipcodesAPIClientError pyval "int option" "pyval option"
  | ValidationError "string list"
  | Uncaught string

text \<open>\<open>' '.join(errors)\<close> and \<open>', '.join(...)\<close>.\<close>

fun join :: "string \<Rightarrow> string list \<Rightarrow> string" where
  "join sep [] = []"
| "join sep [x] = x"
| "join sep (x # y # ys) = x @ sep @ join sep (y # ys)"

text \<open>The attribute \<open>message\<close> that each exception class sets in its constructor.\<close>

fun exn_message :: "exn \<Rightarrow> pyval" where
  "exn_message (ZipcodesAPIClientError m sc r) = m"
| "exn_message (ValidationError errors) = PStr (''Validation failed: '' @ join '' '' errors)"
| "exn_message (Uncaught n) = PStr n"

section \<open>The client and its construction\<close>

record client =
  api_key :: string
  secure :: bool
  debug :: bool
  base_url :: string
  headers :: "(string \<times> string) list"

text \<open>\<open>str.isspace\<close> on one character and \<open>str.strip()\<close>.\<close>

definition is_space :: "char \<Rightarrow> bool" where
  "is_space c = ((of_char c :: nat) \<in> {9, 10, 11, 12, 13, 28, 29, 30, 31, 32, 133, 160})"

definition strip :: "string \<Rightarrow> string" where
  "strip s = rev (dropWhile is_space (rev (dropWhile is_space s)))"

text \<open>The character class \<open>[a-zA-Z0-9_-]\<close>.\<close>

definition key_char :: "char \<Rightarrow> bool" where
  "key_char c =
     (let n = (of_char c :: nat)
      in (97 \<le> n \<and> n \<le> 122) \<or> (65 \<le> n \<and> n \<le> 90) \<or> (48 \<le> n \<and> n \<le> 57)
         \<or> c = CHR ''_'' \<or> c = CHR ''-'')"

text \<open>
  \<open>re.match(r'^[a-zA-Z0-9_-]+$', api_key)\<close> finds a match. The pattern is compiled without
  flags: \<open>^\<close> is the start of the string, the class is repeated greedily at least once, and
  \<open>$\<close> is the end of the string or the position just before a newline that ends the
  string. No character of the class is a newline, so the repetition can only end where the
  run of class characters ends.
\<close>

definition match_key_format :: "string \<Rightarrow> bool" where
  "match_key_format s =
     (let run = takeWhile key_char s; rest = dropWhile key_char s
      in run \<noteq> [] \<and> (rest = [] \<or> rest = [CHR 0x0A]))"

text \<open>\<open>api_key.replace('-', '').replace('_', '')\<close>.\<close>

definition trimmed_key :: "string \<Rightarrow> string" where
  "trimmed_key k = filter (\<lambda>c. c \<noteq> CHR ''_'') (filter (\<lambda>c. c \<noteq> CHR ''-'') k)"

definition validate_api_key :: "string \<Rightarrow> exn + unit" where
  "validate_api_key k =
     (if k = [] \<or> strip k = [] then
        Inl (ZipcodesAPIClientError
          (PStr ''API key is required. Get your API key at: https://apiverve.com'') None None)
      else if \<not> match_key_format k then
        Inl (ZipcodesAPIClientError
          (PStr (''Invalid API key format. API key should only contain letters, numbers, hyphens, and underscores. ''
                 @ ''Get your API key at: https://apiverve.com'')) None None)
      else if length (trimmed_key k) < 32 then
        Inl (ZipcodesAPIClientError
          (PStr (''Invalid API key. API key appears to be too short. ''
                 @ ''Get your API key at: https://apiverve.com'')) None None)
      else Inr ())"

text \<open>\<open>ZipcodesAPIClient.__init__(api_key, secure, debug)\<close>.\<close>

definition init :: "string \<Rightarrow> bool \<Rightarrow> bool \<Rightarrow> exn + client" where
  "init k sec dbg =
     (case validate_api_key k of
        Inl e \<Rightarrow> Inl e
      | Inr u \<Rightarrow> Inr \<lparr> api_key = k, secure = sec, debug = dbg,
                      base_url = ''https://api.apiverve.com/v1/zipcodes'',
                      headers = [(''x-api-key'', k), (''auth-mode'', ''pypi-package'')] \<rparr>)"

section \<open>The runtime the client runs on\<close>

text \<open>
  What the validator and the client call but do not define: \<open>int(value)\<close> and
  \<open>float(value)\<close>, the comparison and \<open>str\<close> of the numbers they return,
  \<open>re.match(pattern, value, re.IGNORECASE)\<close> and \<open>str\<close> of a value. They are arguments
  of the model, with \<open>'n\<close> the type of numbers. A coercion returns a number, raises
  \<open>ValueError\<close> or \<open>TypeError\<close> (\<open>CoerceFail\<close>), or raises an exception of another class
  (\<open>CoerceRaise\<close>, as \<open>OverflowError\<close>).
\<close>

datatype 'n coerced = Coerced 'n | CoerceFail | CoerceRaise string

record 'n runtime =
  py_int :: "pyval \<Rightarrow> 'n coerced"
  py_float :: "pyval \<Rightarrow> 'n coerced"
  num_less :: "'n \<Rightarrow> 'n \<Rightarrow> bool"
  num_str :: "'n \<Rightarrow> string"
  re_match :: "string \<Rightarrow> string \<Rightarrow> bool"
  py_str :: "pyval \<Rightarrow> string"

text \<open>\<open>str\<close> of an integer, in decimal.\<close>

fun str_nat :: "nat \<Rightarrow> string" where
  "str_nat n =
     (if n < 10 then [''0123456789'' ! n]
      else str_nat (n div 10) @ [''0123456789'' ! (n mod 10)])"

declare str_nat.simps [simp del]

definition str_int :: "int \<Rightarrow> string" where
  "str_int i = (if i < 0 then CHR ''-'' # str_nat (nat (- i)) else str_nat (nat i))"

text \<open>
  \<open>a == b\<close> on the values of the model: \<open>True\<close> and \<open>False\<close> are the integers 1 and 0,
  lists are equal elementwise, dictionaries when they have the same keys with equal values.
\<close>

fun py_eq :: "pyval \<Rightarrow> pyval \<Rightarrow> bool" where
  "py_eq PNone b = (b = PNone)"
| "py_eq (PBool x) (PBool y) = (x = y)"
| "py_eq (PBool x) (PInt j) = ((if x then 1 else 0) = j)"
| "py_eq (PInt i) (PBool y) = (i = (if y then 1 else 0))"
| "py_eq (PInt i) (PInt j) = (i = j)"
| "py_eq (PStr s) (PStr t) = (s = t)"
| "py_eq (PList xs) (PList ys) = list_all2 py_eq xs ys"
| "py_eq (PDict d) (PDict e) =
     (length d = length e
      \<and> list_all (\<lambda>(k, v). case map_of e k of None \<Rightarrow> False | Some w \<Rightarrow> py_eq v w) d)"
| "py_eq _ _ = False"

text \<open>\<open>value in container\<close> and \<open>d.get(key)\<close>.\<close>

definition py_in :: "pyval \<Rightarrow> pyval list \<Rightarrow> bool" where
  "py_in v xs = list_ex (py_eq v) xs"

definition dict_get :: "(string \<times> pyval) list \<Rightarrow> string \<Rightarrow> pyval" where
  "dict_get d k = (case map_of d k of None \<Rightarrow> PNone | Some v \<Rightarrow> v)"

section \<open>Parameter validation\<close>

text \<open>
  One entry of \<open>VALIDATION_RULES\<close>: the keys \<open>type\<close>, \<open>required\<close>, \<open>min\<close>, \<open>max\<close>,
  \<open>minLength\<close>, \<open>maxLength\<close>, \<open>format\<close> and \<open>enum\<close> of the rule dictionary, \<open>None\<close> for a
  key the dictionary does not have.
\<close>

record 'n rule =
  r_type :: "string option"
  r_required :: bool
  r_min :: "'n option"
  r_max :: "'n option"
  r_minLength :: "int option"
  r_maxLength :: "int option"
  r_format :: "string option"
  r_enum :: "pyval list option"

definition VALIDATION_RULES :: "(string \<times> 'n rule) list" where
  "VALIDATION_RULES =
     [(''zip'', \<lparr> r_type = Some ''string'', r_required = True, r_min = None, r_max = None,
                 r_minLength = Some 5, r_maxLength = Some 5, r_format = None, r_enum = None \<rparr>)]"

definition bs :: string where
  "bs = [CHR 0x5C]"

definition FORMAT_PATTERNS :: "(string \<times> string) list" where
  "FORMAT_PATTERNS =
     [(''email'', ''^[^'' @ bs @ ''s@]+@[^'' @ bs @ ''s@]+'' @ bs @ ''.[^'' @ bs @ ''s@]+$''),
      (''url'', ''^https?://.+''),
      (''ip'', ''^(?:(?:25[0-5]|2[0-4][0-9]|[01]?[0-9][0-9]?)'' @ bs
               @ ''.){3}(?:25[0-5]|2[0-4][0-9]|[01]?[0-9][0-9]?)$|^([0-9a-fA-F]{1,4}:){7}[0-9a-fA-F]{1,4}$''),
      (''date'', ''^'' @ bs @ ''d{4}-'' @ bs @ ''d{2}-'' @ bs @ ''d{2}$''),
      (''hexColor'', ''^#?([0-9a-fA-F]{3}|[0-9a-fA-F]{6})$'')]"

text \<open>
  How the type-specific part of one loop iteration ends: it falls through to the enum
  check (\<open>Proceed\<close>), it executes \<open>continue\<close> (\<open>Continue\<close>), each with the list \<open>errors\<close>
  as it then is, or an exception leaves the loop (\<open>Raise\<close>).
\<close>

datatype flow = Proceed "string list" | Continue "string list" | Raise exn

definition numeric_checks ::
  "'n runtime \<Rightarrow> string \<Rightarrow> 'n rule \<Rightarrow> string \<Rightarrow> pyval \<Rightarrow> string list \<Rightarrow> flow" where
  "numeric_checks R param_name rules param_type v errors =
     (case (if param_type = ''number'' then py_float R v else py_int R v) of
        Coerced num_value \<Rightarrow>
          (let errors1 =
                 (case r_min rules of
                    Some m \<Rightarrow>
                      if num_less R num_value m
                      then errors @ [''Parameter ['' @ param_name @ ''] must be at least ''
                                     @ num_str R m @ ''.'']
                      else errors
                  | None \<Rightarrow> errors);
               errors2 =
                 (case r_max rules of
                    Some m \<Rightarrow>
                      if num_less R m num_value
                      then errors1 @ [''Parameter ['' @ param_name @ ''] must be at most ''
                                      @ num_str R m @ ''.'']
                      else errors1
                  | None \<Rightarrow> errors1)
           in Proceed errors2)
      | CoerceFail \<Rightarrow>
          Continue (errors @ [''Parameter ['' @ param_name @ ''] must be a valid ''
                              @ param_type @ ''.''])
      | CoerceRaise e \<Rightarrow> Raise (Uncaught e))"

definition string_checks ::
  "'n runtime \<Rightarrow> string \<Rightarrow> 'n rule \<Rightarrow> pyval \<Rightarrow> string list \<Rightarrow> flow" where
  "string_checks R param_name rules v errors =
     (case v of
        PStr s \<Rightarrow>
          (let errors1 =
                 (case r_minLength rules of
                    Some m \<Rightarrow>
                      if int (length s) < m
                      then errors @ [''Parameter ['' @ param_name @ ''] must be at least ''
                                     @ str_int m @ '' characters.'']
                      else errors
                  | None \<Rightarrow> errors);
               errors2 =
                 (case r_maxLength rules of
                    Some m \<Rightarrow>
                      if int (length s) > m
                      then errors1 @ [''Parameter ['' @ param_name @ ''] must be at most ''
                                      @ str_int m @ '' characters.'']
                      else errors1
                  | None \<Rightarrow> errors1);
               errors3 =
                 (case r_format rules of
                    Some f \<Rightarrow>
                      (case map_of FORMAT_PATTERNS f of
                         Some pattern \<Rightarrow>
                           if \<not> re_match R pattern s
                           then errors2 @ [''Parameter ['' @ param_name @ ''] must be a valid ''
                                           @ f @ ''.'']
                           else errors2
                       | None \<Rightarrow> errors2)
                  | None \<Rightarrow> errors2)
           in Proceed errors3)
      | _ \<Rightarrow> Continue (errors @ [''Parameter ['' @ param_name @ ''] must be a string.'']))"

fun is_bool :: "pyval \<Rightarrow> bool" where
  "is_bool (PBool b) = True"
| "is_bool _ = False"

fun is_list :: "pyval \<Rightarrow> bool" where
  "is_list (PList xs) = True"
| "is_list _ = False"

definition type_checks ::
  "'n runtime \<Rightarrow> string \<Rightarrow> 'n rule \<Rightarrow> string \<Rightarrow> pyval \<Rightarrow> string list \<Rightarrow> flow" where
  "type_checks R param_name rules param_type v errors =
     (if param_type = ''integer'' \<or> param_type = ''number'' then
        numeric_checks R param_name rules param_type v errors
      else if param_type = ''string'' then
        string_checks R param_name rules v errors
      else if param_type = ''boolean'' then
        (if \<not> is_bool v \<and> \<not> py_in v [PStr ''true'', PStr ''false'', PBool True, PBool False]
         then Proceed (errors @ [''Parameter ['' @ param_name @ ''] must be a boolean.''])
         else Proceed errors)
      else if param_type = ''array'' then
        (if \<not> is_list v
         then Proceed (errors @ [''Parameter ['' @ param_name @ ''] must be an array.''])
         else Proceed errors)
      else Proceed errors)"

definition enum_message :: "'n runtime \<Rightarrow> string \<Rightarrow> pyval list \<Rightarrow> string" where
  "enum_message R param_name allowed =
     ''Parameter ['' @ param_name @ ''] must be one of: '' @ join '', '' (map (py_str R) allowed)
     @ ''.''"

definition enum_check ::
  "'n runtime \<Rightarrow> string \<Rightarrow> 'n rule \<Rightarrow> pyval \<Rightarrow> string list \<Rightarrow> string list" where
  "enum_check R param_name rules v errors =
     (case r_enum rules of
        Some allowed \<Rightarrow>
          if \<not> py_in v allowed then errors @ [enum_message R param_name allowed] else errors
      | None \<Rightarrow> errors)"

text \<open>The body of the loop over \<open>VALIDATION_RULES.items()\<close>, for one item.\<close>

definition check_param ::
  "'n runtime \<Rightarrow> (string \<times> pyval) list \<Rightarrow> string \<Rightarrow> 'n rule \<Rightarrow> string list
   \<Rightarrow> exn + string list" where
  "check_param R params param_name rules errors =
     (let v = dict_get params param_name
      in if r_required rules \<and> (v = PNone \<or> v = PStr [])
         then Inr (errors @ [''Required parameter ['' @ param_name @ ''] is missing.''])
         else if v = PNone then Inr errors
         else
           (let param_type = (case r_type rules of None \<Rightarrow> ''string'' | Some t \<Rightarrow> t)
            in case type_checks R param_name rules param_type v errors of
                 Proceed errors' \<Rightarrow> Inr (enum_check R param_name rules v errors')
               | Continue errors' \<Rightarrow> Inr errors'
               | Raise e \<Rightarrow> Inl e))"

fun validate_loop ::
  "'n runtime \<Rightarrow> (string \<times> pyval) list \<Rightarrow> (string \<times> 'n rule) list \<Rightarrow> string list
   \<Rightarrow> exn + string list" where
  "validate_loop R params [] errors = Inr errors"
| "validate_loop R params ((param_name, rules) # rest) errors =
     (case check_param R params param_name rules errors of
        Inl e \<Rightarrow> Inl e
      | Inr errors' \<Rightarrow> validate_loop R params rest errors')"

text \<open>
  \<open>_validate_params(params)\<close>; the rule table it reads through \<open>self\<close> is the argument
  \<open>table\<close>, and \<open>params\<close> is \<open>None\<close> or a dictionary.
\<close>

definition validate_params ::
  "'n runtime \<Rightarrow> (string \<times> 'n rule) list \<Rightarrow> (string \<times> pyval) list option \<Rightarrow> exn + unit" where
  "validate_params R table params =
     (if table = [] then Inr ()
      else
        (let params' = (case params of None \<Rightarrow> [] | Some d \<Rightarrow> if d = [] then [] else d)
         in case validate_loop R params' table [] of
              Inl e \<Rightarrow> Inl e
            | Inr errors \<Rightarrow> if errors \<noteq> [] then Inl (ValidationError errors) else Inr ()))"

section \<open>The violations the specification expects\<close>

text \<open>
  The contract of the validator, as the specification words it: for each parameter of the
  rule table, in the order of the table, one message for every constraint that the value
  fails, in the order of the checks. A constraint is configured when its key is in the
  rule (\<open>configured\<close>); the lists below are written constraint by constraint, without an
  accumulator.
\<close>

fun configured :: "'a option \<Rightarrow> 'a list" where
  "configured None = []"
| "configured (Some x) = [x]"

fun is_coerced :: "'n coerced \<Rightarrow> bool" where
  "is_coerced (Coerced x) = True"
| "is_coerced _ = False"

fun is_raise :: "'n coerced \<Rightarrow> bool" where
  "is_raise (CoerceRaise e) = True"
| "is_raise _ = False"

fun is_str :: "pyval \<Rightarrow> bool" where
  "is_str (PStr s) = True"
| "is_str _ = False"

text \<open>The bounds \<open>min\<close> and \<open>max\<close> on a number, the lengths and the format of a string.\<close>

definition bound_violations :: "'n runtime \<Rightarrow> string \<Rightarrow> 'n rule \<Rightarrow> 'n \<Rightarrow> string list" where
  "bound_violations R n r x =
     [''Parameter ['' @ n @ ''] must be at least '' @ num_str R m @ ''.''.
        m \<leftarrow> configured (r_min r), num_less R x m]
     @ [''Parameter ['' @ n @ ''] must be at most '' @ num_str R m @ ''.''.
        m \<leftarrow> configured (r_max r), num_less R m x]"

definition length_violations :: "string \<Rightarrow> 'n rule \<Rightarrow> string \<Rightarrow> string list" where
  "length_violations n r s =
     [''Parameter ['' @ n @ ''] must be at least '' @ str_int m @ '' characters.''.
        m \<leftarrow> configured (r_minLength r), int (length s) < m]
     @ [''Parameter ['' @ n @ ''] must be at most '' @ str_int m @ '' characters.''.
        m \<leftarrow> configured (r_maxLength r), int (length s) > m]"

definition format_violations :: "'n runtime \<Rightarrow> string \<Rightarrow> 'n rule \<Rightarrow> string \<Rightarrow> string list" where
  "format_violations R n r s =
     [''Parameter ['' @ n @ ''] must be a valid '' @ f @ ''.''.
        f \<leftarrow> configured (r_format r), pattern \<leftarrow> configured (map_of FORMAT_PATTERNS f),
        \<not> re_match R pattern s]"

text \<open>
  The type-specific step, for a value that is present. A number that cannot be coerced and
  a value that is not a string under the type \<open>string\<close> have the type message alone; a
  coerced number has one message per violated bound, a string one per violated length and
  one for a violated format.
\<close>

definition type_violations ::
  "'n runtime \<Rightarrow> string \<Rightarrow> 'n rule \<Rightarrow> string \<Rightarrow> pyval \<Rightarrow> string list" where
  "type_violations R n r t v =
     (if t = ''integer'' \<or> t = ''number'' then
        (case (if t = ''number'' then py_float R v else py_int R v) of
           Coerced x \<Rightarrow> bound_violations R n r x
         | _ \<Rightarrow> [''Parameter ['' @ n @ ''] must be a valid '' @ t @ ''.''])
      else if t = ''string'' then
        (case v of
           PStr s \<Rightarrow> length_violations n r s @ format_violations R n r s
         | _ \<Rightarrow> [''Parameter ['' @ n @ ''] must be a string.''])
      else if t = ''boolean'' then
        [''Parameter ['' @ n @ ''] must be a boolean.''.
           ok \<leftarrow> [is_bool v \<or> py_in v [PStr ''true'', PStr ''false'', PBool True, PBool False]],
           \<not> ok]
      else if t = ''array'' then
        [''Parameter ['' @ n @ ''] must be an array.''. ok \<leftarrow> [is_list v], \<not> ok]
      else [])"

text \<open>
  Where the type-specific step ends the checks of the parameter: the coercion of a number
  has not returned a number, or the value is not a string under the type \<open>string\<close>.
\<close>

definition type_stage_ends :: "'n runtime \<Rightarrow> string \<Rightarrow> pyval \<Rightarrow> bool" where
  "type_stage_ends R t v =
     ((t = ''integer'' \<and> \<not> is_coerced (py_int R v))
      \<or> (t = ''number'' \<and> \<not> is_coerced (py_float R v))
      \<or> (t = ''string'' \<and> \<not> is_str v))"

definition enum_violations :: "'n runtime \<Rightarrow> string \<Rightarrow> 'n rule \<Rightarrow> pyval \<Rightarrow> string list" where
  "enum_violations R n r v =
     [enum_message R n allowed. allowed \<leftarrow> configured (r_enum r), \<not> py_in v allowed]"

text \<open>
  The messages expected for one parameter with the value \<open>v\<close> that \<open>params\<close> gives it
  (\<open>PNone\<close> when it gives none): a required parameter that is absent or empty has the
  message that it is missing and nothing else, an optional one that is absent has none, and
  a present one has the messages of the type-specific step followed, where that step has
  not ended the checks of the parameter, by the message of the enumeration.
\<close>

definition expected_violations ::
  "'n runtime \<Rightarrow> string \<Rightarrow> 'n rule \<Rightarrow> pyval \<Rightarrow> string list" where
  "expected_violations R n r v =
     (if r_required r \<and> (v = PNone \<or> v = PStr [])
      then [''Required parameter ['' @ n @ ''] is missing.'']
      else if v = PNone then []
      else
        (let t = (case r_type r of None \<Rightarrow> ''string'' | Some t \<Rightarrow> t)
         in type_violations R n r t v
            @ (if type_stage_ends R t v then [] else enum_violations R n r v)))"

text \<open>
  The one case the contract is silent on: a coercion of a present value raises an
  exception that is neither \<open>ValueError\<close> nor \<open>TypeError\<close>.
\<close>

definition coercion_raises :: "'n runtime \<Rightarrow> 'n rule \<Rightarrow> pyval \<Rightarrow> bool" where
  "coercion_raises R r v =
     (v \<noteq> PNone \<and> (r_required r \<longrightarrow> v \<noteq> PStr [])
      \<and> (let t = (case r_type r of None \<Rightarrow> ''string'' | Some t \<Rightarrow> t)
         in (t = ''integer'' \<and> is_raise (py_int R v))
            \<or> (t = ''number'' \<and> is_raise (py_float R v))))"

text \<open>The outcome of the validator for a list of messages.\<close>

definition verdict :: "string list \<Rightarrow> exn + unit" where
  "verdict errors = (if errors = [] then Inr () else Inl (ValidationError errors))"

section \<open>The request and the classification of its outcome\<close>

text \<open>
  The transport is the session of the \<open>requests\<close> library. A request is what \<open>execute\<close>
  hands to \<open>session.get\<close> or \<open>session.post\<close>, with the headers the client has put on the
  session. A response is read through \<open>status_code\<close>, \<open>ok\<close> and \<open>json()\<close>: \<open>resp_json\<close> is
  \<open>Inl\<close> of the text of the \<open>ValueError\<close> when \<open>json()\<close> raises it, \<open>Inr\<close> of the parsed
  value otherwise. \<open>resp_ok\<close> is the library's flag (\<open>requests\<close> clears it for the status
  codes from 400 to 599).
\<close>

record request =
  req_method :: string
  req_url :: string
  req_headers :: "(string \<times> string) list"
  req_params :: "(string \<times> pyval) list option"
  req_json :: "(string \<times> pyval) list option"
  req_timeout :: nat

record response =
  resp_status_code :: int
  resp_ok :: bool
  resp_json :: "string + pyval"

text \<open>
  An exception of the hierarchy under \<open>requests.exceptions.RequestException\<close>: whether it
  is an instance of \<open>Timeout\<close>, whether it is an instance of \<open>ConnectionError\<close> (a
  \<open>ConnectTimeout\<close> is both), and \<open>str(e)\<close>.
\<close>

record request_exception =
  is_timeout :: bool
  is_connection_error :: bool
  exc_str :: string

text \<open>
  What the call of the session does: it returns a response, raises an exception of the
  \<open>RequestException\<close> hierarchy, or raises an exception of a class outside it (named by the
  string).
\<close>

datatype transport_result =
    Responds response
  | RaisesRequestException request_exception
  | RaisesOther string

text \<open>What a call leaves behind: the lines printed and the requests handed to the session.\<close>

record world =
  stdout :: "string list"
  sent :: "request list"

definition log :: "client \<Rightarrow> string \<Rightarrow> world \<Rightarrow> world" where
  "log c message w =
     (if debug c then w\<lparr>stdout := stdout w @ [''[ZipcodesAPIClient DEBUG] '' @ message]\<rparr>
      else w)"

text \<open>\<open>str.upper()\<close>, on the letters a to z.\<close>

definition upper_char :: "char \<Rightarrow> char" where
  "upper_char c =
     (let n = (of_char c :: nat) in if 97 \<le> n \<and> n \<le> 122 then char_of (n - 32) else c)"

definition upper :: "string \<Rightarrow> string" where
  "upper s = map upper_char s"

text \<open>\<open>d.get(key, default)\<close>.\<close>

definition dict_get_default :: "(string \<times> pyval) list \<Rightarrow> string \<Rightarrow> pyval \<Rightarrow> pyval" where
  "dict_get_default d k dflt = (case map_of d k of None \<Rightarrow> dflt | Some v \<Rightarrow> v)"

text \<open>The arguments of the call of the session, by the HTTP method.\<close>

definition build_request :: "client \<Rightarrow> string \<Rightarrow> (string \<times> pyval) list option \<Rightarrow> request" where
  "build_request c method params =
     (if upper method = ''POST''
      then \<lparr> req_method = ''POST'', req_url = base_url c, req_headers = headers c,
             req_params = None, req_json = params, req_timeout = 30 \<rparr>
      else \<lparr> req_method = ''GET'', req_url = base_url c, req_headers = headers c,
             req_params = params, req_json = None, req_timeout = 30 \<rparr>)"

text \<open>
  The part of the \<open>try\<close> block after the session has returned a response. A parsed body
  that is not a dictionary has no method \<open>get\<close>: the call raises \<open>AttributeError\<close>, which no
  \<open>except\<close> clause catches.
\<close>

definition classify_response ::
  "'n runtime \<Rightarrow> client \<Rightarrow> response \<Rightarrow> world \<Rightarrow> (exn + pyval) \<times> world" where
  "classify_response R c r w =
     (let w1 = log c (''Response status code: '' @ str_int (resp_status_code r)) w
      in case resp_json r of
           Inl e \<Rightarrow>
             (Inl (ZipcodesAPIClientError (PStr (''Invalid JSON response from API: '' @ e))
                     (Some (resp_status_code r)) None), w1)
         | Inr response_data \<Rightarrow>
             (case response_data of
                PDict d \<Rightarrow>
                  if py_eq (dict_get d ''status'') (PStr ''error'') then
                    (let error_message = dict_get_default d ''error'' (PStr ''Unknown API error'');
                         w2 = log c (''API returned error: '' @ py_str R error_message) w1
                     in (Inl (ZipcodesAPIClientError error_message
                               (Some (resp_status_code r)) (Some response_data)), w2))
                  else if \<not> resp_ok r then
                    (let error_message =
                           dict_get_default d ''error''
                             (PStr (''HTTP '' @ str_int (resp_status_code r) @ '' error''));
                         w2 = log c (''HTTP error: '' @ py_str R error_message) w1
                     in (Inl (ZipcodesAPIClientError error_message
                               (Some (resp_status_code r)) (Some response_data)), w2))
                  else (Inr response_data, log c ''Request successful'' w1)
              | _ \<Rightarrow> (Inl (Uncaught ''AttributeError''), w1)))"

text \<open>The three \<open>except\<close> clauses, in their order.\<close>

definition handle_request_exception ::
  "client \<Rightarrow> request_exception \<Rightarrow> world \<Rightarrow> (exn + pyval) \<times> world" where
  "handle_request_exception c e w =
     (if is_timeout e then
        (Inl (ZipcodesAPIClientError (PStr (''Request timeout: '' @ exc_str e)) None None),
         log c (''Request timeout: '' @ exc_str e) w)
      else if is_connection_error e then
        (Inl (ZipcodesAPIClientError (PStr (''Connection error: '' @ exc_str e)) None None),
         log c (''Connection error: '' @ exc_str e) w)
      else
        (Inl (ZipcodesAPIClientError (PStr (''Request failed: '' @ exc_str e)) None None),
         log c (''Request exception: '' @ exc_str e) w))"

text \<open>
  \<open>execute(params)\<close>: the result is the value returned (\<open>Inr\<close>) or the exception raised
  (\<open>Inl\<close>), with the world after the call.
\<close>

definition execute ::
  "'n runtime \<Rightarrow> (request \<Rightarrow> transport_result) \<Rightarrow> client \<Rightarrow> (string \<times> pyval) list option
   \<Rightarrow> world \<Rightarrow> (exn + pyval) \<times> world" where
  "execute R transport c params w =
     (case validate_params R VALIDATION_RULES params of
        Inl e \<Rightarrow> (Inl e, w)
      | Inr u \<Rightarrow>
          (let method = ''GET'';
               w1 = log c (''Making '' @ method @ '' request to '' @ base_url c) w;
               w2 = (case params of
                       None \<Rightarrow> w1
                     | Some d \<Rightarrow>
                         if d \<noteq> [] then log c (''Parameters: '' @ py_str R (PDict d)) w1 else w1);
               w3 = (if upper method = ''POST''
                     then log c ''Sending POST request with JSON body'' w2
                     else log c ''Sending GET request with query parameters'' w2);
               req = build_request c method params;
               w4 = w3\<lparr>sent := sent w3 @ [req]\<rparr>
           in case transport req of
                Responds r \<Rightarrow> classify_response R c r w4
              | RaisesRequestException e \<Rightarrow> handle_request_exception c e w4
              | RaisesOther n \<Rightarrow> (Inl (Uncaught n), w4)))"

text \<open>\<open>ZipcodesAPIClient(api_key, secure, debug).execute(params)\<close>.\<close>

definition construct_and_execute ::
  "'n runtime \<Rightarrow> (request \<Rightarrow> transport_result) \<Rightarrow> string \<Rightarrow> bool \<Rightarrow> bool
   \<Rightarrow> (string \<times> pyval) list option \<Rightarrow> world \<Rightarrow> (exn + pyval) \<times> world" where
  "construct_and_execute R transport k sec dbg params w =
     (case init k sec dbg of
        Inl e \<Rightarrow> (Inl e, w)
      | Inr c \<Rightarrow> execute R transport c params w)"

section \<open>Sample inputs\<close>

text \<open>
  A runtime to run the model on: numbers are integers, \<open>int\<close> and \<open>float\<close> take integers and
  booleans and raise \<open>TypeError\<close> or \<open>ValueError\<close> on every other value, no string matches a
  pattern, and \<open>str\<close> renders strings and integers. The examples below reach none of the
  coercions and patterns.
\<close>

definition sample_runtime :: "int runtime" where
  "sample_runtime =
     \<lparr> py_int = (\<lambda>v. case v of PInt i \<Rightarrow> Coerced i
                            | PBool b \<Rightarrow> Coerced (if b then 1 else 0)
                            | _ \<Rightarrow> CoerceFail),
       py_float = (\<lambda>v. case v of PInt i \<Rightarrow> Coerced i
                              | PBool b \<Rightarrow> Coerced (if b then 1 else 0)
                              | _ \<Rightarrow> CoerceFail),
       num_less = (\<lambda>a b. a < b),
       num_str = str_int,
       re_match = (\<lambda>pattern s. False),
       py_str = (\<lambda>v. case v of PStr s \<Rightarrow> s | PInt i \<Rightarrow> str_int i | _ \<Rightarrow> ''<object>'') \<rparr>"

definition sample_client :: client where
  "sample_client =
     \<lparr> api_key = ''0123456789abcdef0123456789abcdef'', secure = True, debug = False,
       base_url = ''https://api.apiverve.com/v1/zipcodes'',
       headers = [(''x-api-key'', ''0123456789abcdef0123456789abcdef''),
                  (''auth-mode'', ''pypi-package'')] \<rparr>"

definition empty_world :: world where
  "empty_world = \<lparr> stdout = [], sent = [] \<rparr>"

text \<open>A transport that answers every request with the same result.\<close>

definition always :: "transport_result \<Rightarrow> request \<Rightarrow> transport_result" where
  "always t req = t"

text \<open>
  A rule table with four parameters, to run the validator on more than one rule: \<open>zip\<close>
  as the client has it with an enumeration added, an optional boolean \<open>units\<close> with an
  enumeration, an optional integer \<open>radius\<close> with bounds and an enumeration, and a
  required \<open>country\<close> without a type.
\<close>

definition sample_zip_rule :: "int rule" where
  "sample_zip_rule =
     \<lparr> r_type = Some ''string'', r_required = True, r_min = None, r_max = None,
       r_minLength = Some 5, r_maxLength = Some 5, r_format = None,
       r_enum = Some [PStr ''64082'', PStr ''64083''] \<rparr>"

definition sample_units_rule :: "int rule" where
  "sample_units_rule =
     \<lparr> r_type = Some ''boolean'', r_required = False, r_min = None, r_max = None,
       r_minLength = None, r_maxLength = None, r_format = None,
       r_enum = Some [PStr ''true'', PStr ''false''] \<rparr>"

definition sample_radius_rule :: "int rule" where
  "sample_radius_rule =
     \<lparr> r_type = Some ''integer'', r_required = False, r_min = Some 1, r_max = Some 50,
       r_minLength = None, r_maxLength = None, r_format = None,
       r_enum = Some [PInt 5, PInt 10] \<rparr>"

definition sample_country_rule :: "int rule" where
  "sample_country_rule =
     \<lparr> r_type = None, r_required = True, r_min = None, r_max = None,
       r_minLength = None, r_maxLength = None, r_format = None, r_enum = None \<rparr>"

definition sample_table :: "(string \<times> int rule) list" where
  "sample_table =
     [(''zip'', sample_zip_rule), (''units'', sample_units_rule),
      (''radius'', sample_radius_rule), (''country'', sample_country_rule)]"

section \<open>API key validation\<close>

lemma key_char_newline: "\<not> key_char (CHR 0x0A)"
  by (simp add: key_char_def)

lemma match_key_format_plain:
  assumes "k = [] \<or> last k \<noteq> CHR 0x0A"
  shows "match_key_format k \<longleftrightarrow> k \<noteq> [] \<and> list_all key_char k"
proof -
  have split: "k = takeWhile key_char k @ dropWhile key_char k" by simp
  have all: "dropWhile key_char k = [] \<longleftrightarrow> (\<forall>x \<in> set k. key_char x)"
    by (simp add: dropWhile_eq_Nil_conv)
  have "dropWhile key_char k \<noteq> [CHR 0x0A]"
  proof
    assume d: "dropWhile key_char k = [CHR 0x0A]"
    then have "k = takeWhile key_char k @ [CHR 0x0A]" using split by simp
    then have "k \<noteq> [] \<and> last k = CHR 0x0A"
      by (metis append_is_Nil_conv last_snoc not_Cons_self2)
    with assms show False by simp
  qed
  moreover have "takeWhile key_char k \<noteq> []" if "k \<noteq> []" "list_all key_char k"
    using that by (cases k) simp_all
  moreover have "k \<noteq> []" if "takeWhile key_char k \<noteq> []"
    using that by auto
  ultimately show ?thesis
    by (auto simp add: match_key_format_def Let_def all list_all_iff)
qed

text \<open>
  On a key that does not end with a newline, construction fails exactly when the key is
  empty or only whitespace, has a character outside letters, digits, hyphen and underscore,
  or has fewer than 32 characters once hyphens and underscores are removed.
\<close>

lemma init_without_trailing_newline:
  assumes "k = [] \<or> last k \<noteq> CHR 0x0A"
  shows "(\<exists>e. init k sec dbg = Inl e) \<longleftrightarrow>
           (k = [] \<or> strip k = [] \<or> \<not> list_all key_char k \<or> length (trimmed_key k) < 32)"
  using match_key_format_plain [OF assms]
  by (auto simp add: init_def validate_api_key_def)

text \<open>
  C5, at the failing input: a key of 32 letters followed by a newline contains a character
  outside letters, digits, hyphen and underscore, and construction succeeds on it.
\<close>

theorem init_accepts_trailing_newline:
  "\<not> list_all key_char (''aaaaaaaaaaaaaaaaaaaaaaaaaaaaaaaa'' @ [CHR 0x0A])
   \<and> init (''aaaaaaaaaaaaaaaaaaaaaaaaaaaaaaaa'' @ [CHR 0x0A]) True False
       = Inr \<lparr> api_key = ''aaaaaaaaaaaaaaaaaaaaaaaaaaaaaaaa'' @ [CHR 0x0A], secure = True, debug = False,
               base_url = ''https://api.apiverve.com/v1/zipcodes'',
               headers = [(''x-api-key'', ''aaaaaaaaaaaaaaaaaaaaaaaaaaaaaaaa'' @ [CHR 0x0A]),
                          (''auth-mode'', ''pypi-package'')] \<rparr>"
  by (simp add: init_def validate_api_key_def match_key_format_def key_char_def strip_def
      is_space_def trimmed_key_def)

section \<open>The validator on the rule table of the client\<close>

lemma str_int_5: "str_int 5 = ''5''"
  by (simp add: str_int_def str_nat.simps)

lemma py_eq_PStr: "py_eq v (PStr s) = (v = PStr s)"
  by (cases v) auto

lemma dict_get_Some: "map_of d k = Some v \<Longrightarrow> dict_get d k = v"
  by (simp add: dict_get_def)

lemma check_param_zip:
  "check_param R ps ''zip''
     \<lparr> r_type = Some ''string'', r_required = True, r_min = None, r_max = None,
       r_minLength = Some 5, r_maxLength = Some 5, r_format = None, r_enum = None \<rparr> errors =
     Inr (errors @
       (case dict_get ps ''zip'' of
          PNone \<Rightarrow> [''Required parameter [zip] is missing.'']
        | PStr s \<Rightarrow>
            if s = [] then [''Required parameter [zip] is missing.'']
            else if length s < 5 then [''Parameter [zip] must be at least 5 characters.'']
            else if length s > 5 then [''Parameter [zip] must be at most 5 characters.'']
            else []
        | _ \<Rightarrow> [''Parameter [zip] must be a string.'']))"
  by (simp add: check_param_def type_checks_def string_checks_def
      enum_check_def str_int_5 Let_def split: pyval.splits)

text \<open>What \<open>_validate_params\<close> does with the one rule of the client, by the value of \<open>zip\<close>.\<close>

lemma validate_params_zip:
  "validate_params R VALIDATION_RULES params =
     (case dict_get (case params of None \<Rightarrow> [] | Some d \<Rightarrow> d) ''zip'' of
        PNone \<Rightarrow> Inl (ValidationError [''Required parameter [zip] is missing.''])
      | PStr s \<Rightarrow>
          if s = [] then Inl (ValidationError [''Required parameter [zip] is missing.''])
          else if length s < 5
          then Inl (ValidationError [''Parameter [zip] must be at least 5 characters.''])
          else if length s > 5
          then Inl (ValidationError [''Parameter [zip] must be at most 5 characters.''])
          else Inr ()
      | _ \<Rightarrow> Inl (ValidationError [''Parameter [zip] must be a string.'']))"
  by (cases params)
     (simp_all add: validate_params_def VALIDATION_RULES_def check_param_zip
        split: pyval.splits)

section \<open>The outcome of execute\<close>

lemma execute_invalid:
  "validate_params R VALIDATION_RULES params = Inl e \<Longrightarrow> execute R T c params w = (Inl e, w)"
  by (simp add: execute_def)

lemma sent_log: "sent (log c m w) = sent w"
  by (simp add: log_def)

lemma upper_GET: "upper ''GET'' \<noteq> ''POST''"
  by (simp add: upper_def upper_char_def)

lemma fst_classify_response:
  "fst (classify_response R c r w) =
     (case resp_json r of
        Inl e \<Rightarrow> Inl (ZipcodesAPIClientError (PStr (''Invalid JSON response from API: '' @ e))
                       (Some (resp_status_code r)) None)
      | Inr response_data \<Rightarrow>
          (case response_data of
             PDict d \<Rightarrow>
               if dict_get d ''status'' = PStr ''error'' then
                 Inl (ZipcodesAPIClientError (dict_get_default d ''error'' (PStr ''Unknown API error''))
                        (Some (resp_status_code r)) (Some response_data))
               else if \<not> resp_ok r then
                 Inl (ZipcodesAPIClientError
                        (dict_get_default d ''error''
                           (PStr (''HTTP '' @ str_int (resp_status_code r) @ '' error'')))
                        (Some (resp_status_code r)) (Some response_data))
               else Inr response_data
           | _ \<Rightarrow> Inl (Uncaught ''AttributeError'')))"
  by (simp add: classify_response_def py_eq_PStr Let_def split: sum.splits pyval.splits)

lemma sent_classify_response: "sent (snd (classify_response R c r w)) = sent w"
  by (simp add: classify_response_def sent_log Let_def split: sum.splits pyval.splits)

lemma fst_handle_request_exception:
  "fst (handle_request_exception c e w) =
     Inl (ZipcodesAPIClientError
            (PStr ((if is_timeout e then ''Request timeout: ''
                    else if is_connection_error e then ''Connection error: ''
                    else ''Request failed: '') @ exc_str e)) None None)"
  by (simp add: handle_request_exception_def)

lemma sent_handle_request_exception: "sent (snd (handle_request_exception c e w)) = sent w"
  by (simp add: handle_request_exception_def sent_log)

lemma fst_execute_valid:
  "validate_params R VALIDATION_RULES params = Inr () \<Longrightarrow>
   fst (execute R T c params w) =
     (case T (build_request c ''GET'' params) of
        Responds r \<Rightarrow> fst (classify_response R c r w)
      | RaisesRequestException e \<Rightarrow> fst (handle_request_exception c e w)
      | RaisesOther n \<Rightarrow> Inl (Uncaught n))"
  by (simp add: execute_def Let_def fst_classify_response fst_handle_request_exception
      split: transport_result.splits)

lemma sent_execute_valid:
  "validate_params R VALIDATION_RULES params = Inr () \<Longrightarrow>
   sent (snd (execute R T c params w)) = sent w @ [build_request c ''GET'' params]"
  by (simp add: execute_def Let_def sent_classify_response sent_handle_request_exception
      sent_log upper_GET split: transport_result.splits option.splits)

lemma fst_execute_not_validation:
  assumes "validate_params R VALIDATION_RULES params = Inr ()"
  shows "fst (execute R T c params w) \<noteq> Inl (ValidationError errs)"
  using assms
  by (simp add: fst_execute_valid fst_classify_response fst_handle_request_exception
      split: transport_result.splits sum.splits pyval.splits)

section \<open>Validation of zip before the request\<close>

text \<open>
  C1, as the code has it: when \<open>params\<close> binds \<open>zip\<close> to a string \<open>s\<close>, a non-empty \<open>s\<close>
  shorter than 5 characters makes \<open>execute\<close> raise a \<open>ValidationError\<close> whose only message
  is the minimum-length message, an \<open>s\<close> longer than 5 characters one whose only message is
  the maximum-length message, both without a request being sent; an \<open>s\<close> of exactly 5
  characters, whatever they are, passes \<open>_validate_params\<close>, and \<open>execute\<close> raises no
  \<open>ValidationError\<close> on it.
\<close>

theorem zip_length_validation:
  assumes "map_of ps ''zip'' = Some (PStr s)"
  shows "(s \<noteq> [] \<and> length s < 5 \<longrightarrow>
            execute R T c (Some ps) w =
              (Inl (ValidationError [''Parameter [zip] must be at least 5 characters.'']), w))
       \<and> (length s > 5 \<longrightarrow>
            execute R T c (Some ps) w =
              (Inl (ValidationError [''Parameter [zip] must be at most 5 characters.'']), w))
       \<and> (length s = 5 \<longrightarrow>
            validate_params R VALIDATION_RULES (Some ps) = Inr ()
            \<and> (\<forall>errs. fst (execute R T c (Some ps) w) \<noteq> Inl (ValidationError errs)))"
proof -
  have v: "dict_get ps ''zip'' = PStr s"
    using assms by (rule dict_get_Some)
  have short: "execute R T c (Some ps) w =
      (Inl (ValidationError [''Parameter [zip] must be at least 5 characters.'']), w)"
    if "s \<noteq> []" "length s < 5"
    using that by (intro execute_invalid) (simp add: validate_params_zip v)
  have long: "execute R T c (Some ps) w =
      (Inl (ValidationError [''Parameter [zip] must be at most 5 characters.'']), w)"
    if "length s > 5"
    using that by (intro execute_invalid) (auto simp add: validate_params_zip v)
  have ok: "validate_params R VALIDATION_RULES (Some ps) = Inr ()" if "length s = 5"
    using that by (auto simp add: validate_params_zip v)
  show ?thesis
    using short long ok fst_execute_not_validation by blast
qed

theorem zip_length_validation_witness:
  "execute sample_runtime (always (RaisesOther ''unused'')) sample_client
     (Some [(''zip'', PStr ''6408'')]) empty_world
     = (Inl (ValidationError [''Parameter [zip] must be at least 5 characters.'']), empty_world)
   \<and> execute sample_runtime (always (RaisesOther ''unused'')) sample_client
     (Some [(''zip'', PStr ''640820'')]) empty_world
     = (Inl (ValidationError [''Parameter [zip] must be at most 5 characters.'']), empty_world)
   \<and> validate_params sample_runtime VALIDATION_RULES (Some [(''zip'', PStr ''ab de'')]) = Inr ()"
  using zip_length_validation [of "[(''zip'', PStr ''6408'')]" "''6408''" sample_runtime
          "always (RaisesOther ''unused'')" sample_client empty_world]
        zip_length_validation [of "[(''zip'', PStr ''640820'')]" "''640820''" sample_runtime
          "always (RaisesOther ''unused'')" sample_client empty_world]
        zip_length_validation [of "[(''zip'', PStr ''ab de'')]" "''ab de''" sample_runtime
          "always (RaisesOther ''unused'')" sample_client empty_world]
  by simp

text \<open>
  C1 as stated fails at the empty string: its length is not 5, and the \<open>ValidationError\<close>
  that \<open>execute\<close> raises carries the message that \<open>zip\<close> is missing and neither of the two
  length messages.
\<close>

theorem zip_empty_string_reported_missing:
  "length ('''' :: string) \<noteq> 5
   \<and> execute sample_runtime (always (RaisesOther ''unused'')) sample_client
       (Some [(''zip'', PStr '''')]) empty_world
     = (Inl (ValidationError [''Required parameter [zip] is missing.'']), empty_world)
   \<and> ''Parameter [zip] must be at least 5 characters.''
       \<notin> set [''Required parameter [zip] is missing.'']
   \<and> ''Parameter [zip] must be at most 5 characters.''
       \<notin> set [''Required parameter [zip] is missing.'']"
  by (simp add: execute_invalid validate_params_zip dict_get_def)

text \<open>
  C2: when \<open>params\<close> has no key \<open>zip\<close> or binds it to the empty string, \<open>execute\<close> raises a
  \<open>ValidationError\<close> whose list of messages is the single message "Required parameter [zip]
  is missing." (no other check of the parameter has added one), and the world is as before
  the call: no request has been handed to the session, whatever the transport would answer.
\<close>

theorem missing_zip_rejected_before_request:
  assumes "map_of ps ''zip'' = None \<or> map_of ps ''zip'' = Some (PStr '''')"
  shows "execute R T c (Some ps) w =
           (Inl (ValidationError [''Required parameter [zip] is missing.'']), w)"
  using assms
  by (intro execute_invalid) (auto simp add: validate_params_zip dict_get_def)

theorem missing_zip_rejected_before_request_witness:
  "execute sample_runtime
     (always (Responds \<lparr> resp_status_code = 200, resp_ok = True,
                          resp_json = Inr (PDict [(''status'', PStr ''ok'')]) \<rparr>))
     sample_client (Some [(''city'', PStr ''Lees Summit'')]) empty_world
     = (Inl (ValidationError [''Required parameter [zip] is missing.'']), empty_world)
   \<and> execute sample_runtime
     (always (Responds \<lparr> resp_status_code = 200, resp_ok = True,
                          resp_json = Inr (PDict [(''status'', PStr ''ok'')]) \<rparr>))
     sample_client (Some [(''zip'', PStr '''')]) empty_world
     = (Inl (ValidationError [''Required parameter [zip] is missing.'']), empty_world)"
  using missing_zip_rejected_before_request
          [where ps = "[(''city'', PStr ''Lees Summit'')]" and R = sample_runtime
             and c = sample_client and w = empty_world]
        missing_zip_rejected_before_request
          [where ps = "[(''zip'', PStr '''')]" and R = sample_runtime
             and c = sample_client and w = empty_world]
  by simp

text \<open>
  C10: \<open>execute\<close> with \<open>params\<close> omitted or \<open>None\<close> ends as \<open>execute\<close> with the empty
  dictionary does, in the same world: with a \<open>ValidationError\<close> that carries "Required
  parameter [zip] is missing." and without a request handed to the session.
\<close>

theorem params_none_like_empty:
  "execute R T c None w = execute R T c (Some []) w
   \<and> execute R T c None w =
       (Inl (ValidationError [''Required parameter [zip] is missing.'']), w)"
proof -
  have "execute R T c None w =
          (Inl (ValidationError [''Required parameter [zip] is missing.'']), w)"
    by (intro execute_invalid) (simp add: validate_params_zip dict_get_def)
  moreover have "execute R T c (Some []) w =
          (Inl (ValidationError [''Required parameter [zip] is missing.'']), w)"
    by (intro execute_invalid) (simp add: validate_params_zip dict_get_def)
  ultimately show ?thesis by simp
qed

theorem params_none_like_empty_witness:
  "execute sample_runtime (always (RaisesOther ''unused'')) sample_client None empty_world
     = execute sample_runtime (always (RaisesOther ''unused'')) sample_client (Some []) empty_world
   \<and> execute sample_runtime (always (RaisesOther ''unused'')) sample_client None empty_world
     = (Inl (ValidationError [''Required parameter [zip] is missing.'']), empty_world)"
  by (rule params_none_like_empty)

section \<open>Classification of the response\<close>

lemma dict_get_default_map_of:
  "dict_get_default d k dflt = (case map_of d k of Some m \<Rightarrow> m | None \<Rightarrow> dflt)"
  by (simp add: dict_get_default_def split: option.splits)

lemma sample_params_valid:
  "validate_params sample_runtime VALIDATION_RULES (Some [(''zip'', PStr ''64082'')]) = Inr ()"
  by (simp add: validate_params_zip dict_get_def)

text \<open>
  C3, as the code has it: when the parameters are valid and the body of the response parses
  to a dictionary whose \<open>status\<close> is \<open>"error"\<close>, \<open>execute\<close> raises a
  \<open>ZipcodesAPIClientError\<close> whose message is the \<open>error\<close> field of the dictionary when it
  has one and \<open>"Unknown API error"\<close> when it has none, with the HTTP status code and the
  dictionary itself. The flag \<open>ok\<close> of the response and its status code play no part: the
  classification comes before the check of the HTTP status.
\<close>

theorem api_error_classified_first:
  assumes valid: "validate_params R VALIDATION_RULES params = Inr ()"
      and resp: "T (build_request c ''GET'' params) = Responds r"
      and body: "resp_json r = Inr (PDict d)"
      and status: "map_of d ''status'' = Some (PStr ''error'')"
  shows "fst (execute R T c params w) =
           Inl (ZipcodesAPIClientError
                  (case map_of d ''error'' of Some m \<Rightarrow> m | None \<Rightarrow> PStr ''Unknown API error'')
                  (Some (resp_status_code r)) (Some (PDict d)))"
proof -
  have "dict_get d ''status'' = PStr ''error''"
    using status by (rule dict_get_Some)
  then show ?thesis
    by (simp add: fst_execute_valid [OF valid] resp fst_classify_response body
        dict_get_default_map_of)
qed

theorem api_error_classified_first_witness:
  "fst (execute sample_runtime
          (always (Responds \<lparr> resp_status_code = 200, resp_ok = True,
             resp_json = Inr (PDict [(''status'', PStr ''error''),
                                     (''error'', PStr ''Zip code not found'')]) \<rparr>))
          sample_client (Some [(''zip'', PStr ''64082'')]) empty_world)
     = Inl (ZipcodesAPIClientError (PStr ''Zip code not found'') (Some 200)
              (Some (PDict [(''status'', PStr ''error''),
                            (''error'', PStr ''Zip code not found'')])))
   \<and> fst (execute sample_runtime
          (always (Responds \<lparr> resp_status_code = 500, resp_ok = False,
             resp_json = Inr (PDict [(''status'', PStr ''error'')]) \<rparr>))
          sample_client (Some [(''zip'', PStr ''64082'')]) empty_world)
     = Inl (ZipcodesAPIClientError (PStr ''Unknown API error'') (Some 500)
              (Some (PDict [(''status'', PStr ''error'')])))"
  using api_error_classified_first
          [where R = sample_runtime and params = "Some [(''zip'', PStr ''64082'')]"
             and c = sample_client and w = empty_world
             and T = "always (Responds \<lparr> resp_status_code = 200, resp_ok = True,
                        resp_json = Inr (PDict [(''status'', PStr ''error''),
                                                (''error'', PStr ''Zip code not found'')]) \<rparr>)"
             and r = "\<lparr> resp_status_code = 200, resp_ok = True,
                        resp_json = Inr (PDict [(''status'', PStr ''error''),
                                                (''error'', PStr ''Zip code not found'')]) \<rparr>"
             and d = "[(''status'', PStr ''error''), (''error'', PStr ''Zip code not found'')]"]
        api_error_classified_first
          [where R = sample_runtime and params = "Some [(''zip'', PStr ''64082'')]"
             and c = sample_client and w = empty_world
             and T = "always (Responds \<lparr> resp_status_code = 500, resp_ok = False,
                        resp_json = Inr (PDict [(''status'', PStr ''error'')]) \<rparr>)"
             and r = "\<lparr> resp_status_code = 500, resp_ok = False,
                        resp_json = Inr (PDict [(''status'', PStr ''error'')]) \<rparr>"
             and d = "[(''status'', PStr ''error'')]"]
  by (simp add: sample_params_valid always_def)

text \<open>
  C3 as stated fails on an envelope without an \<open>error\<close> field: the message of the
  exception is then \<open>"Unknown API error"\<close>, which is no field of the envelope.
\<close>

theorem api_error_without_error_field:
  "map_of [(''status'', PStr ''error'')] ''error'' = None
   \<and> fst (execute sample_runtime
          (always (Responds \<lparr> resp_status_code = 200, resp_ok = True,
             resp_json = Inr (PDict [(''status'', PStr ''error'')]) \<rparr>))
          sample_client (Some [(''zip'', PStr ''64082'')]) empty_world)
     = Inl (ZipcodesAPIClientError (PStr ''Unknown API error'') (Some 200)
              (Some (PDict [(''status'', PStr ''error'')])))"
  by (simp add: fst_execute_valid [OF sample_params_valid] always_def fst_classify_response
      dict_get_def dict_get_default_def)

text \<open>
  C4, as the code has it: when the parameters are valid and the body parses to a dictionary
  whose \<open>status\<close> is not \<open>"error"\<close>, \<open>execute\<close> returns the dictionary unchanged if the
  flag \<open>ok\<close> of the response is set; if it is not, \<open>execute\<close> raises a
  \<open>ZipcodesAPIClientError\<close> with the \<open>error\<close> field of the dictionary, or
  \<open>"HTTP <code> error"\<close> when there is no such field, the status code and the dictionary.
\<close>

theorem http_failure_or_envelope:
  assumes valid: "validate_params R VALIDATION_RULES params = Inr ()"
      and resp: "T (build_request c ''GET'' params) = Responds r"
      and body: "resp_json r = Inr (PDict d)"
      and status: "dict_get d ''status'' \<noteq> PStr ''error''"
  shows "fst (execute R T c params w) =
           (if resp_ok r then Inr (PDict d)
            else Inl (ZipcodesAPIClientError
                   (case map_of d ''error'' of
                      Some m \<Rightarrow> m
                    | None \<Rightarrow> PStr (''HTTP '' @ str_int (resp_status_code r) @ '' error''))
                   (Some (resp_status_code r)) (Some (PDict d))))"
  using status
  by (simp add: fst_execute_valid [OF valid] resp fst_classify_response body
      dict_get_default_map_of split: option.splits)

lemma str_int_404: "str_int 404 = ''404''"
  by (simp add: str_int_def str_nat.simps)

theorem http_failure_or_envelope_witness:
  "fst (execute sample_runtime
          (always (Responds \<lparr> resp_status_code = 200, resp_ok = True,
             resp_json = Inr (PDict [(''status'', PStr ''ok''),
                                     (''data'', PDict [(''zip'', PStr ''64082'')])]) \<rparr>))
          sample_client (Some [(''zip'', PStr ''64082'')]) empty_world)
     = Inr (PDict [(''status'', PStr ''ok''), (''data'', PDict [(''zip'', PStr ''64082'')])])
   \<and> fst (execute sample_runtime
          (always (Responds \<lparr> resp_status_code = 404, resp_ok = False,
             resp_json = Inr (PDict [(''message'', PStr ''no such route'')]) \<rparr>))
          sample_client (Some [(''zip'', PStr ''64082'')]) empty_world)
     = Inl (ZipcodesAPIClientError (PStr ''HTTP 404 error'') (Some 404)
              (Some (PDict [(''message'', PStr ''no such route'')])))"
  using http_failure_or_envelope
          [where R = sample_runtime and params = "Some [(''zip'', PStr ''64082'')]"
             and c = sample_client and w = empty_world
             and T = "always (Responds \<lparr> resp_status_code = 200, resp_ok = True,
                        resp_json = Inr (PDict [(''status'', PStr ''ok''),
                                     (''data'', PDict [(''zip'', PStr ''64082'')])]) \<rparr>)"
             and r = "\<lparr> resp_status_code = 200, resp_ok = True,
                        resp_json = Inr (PDict [(''status'', PStr ''ok''),
                                     (''data'', PDict [(''zip'', PStr ''64082'')])]) \<rparr>"
             and d = "[(''status'', PStr ''ok''), (''data'', PDict [(''zip'', PStr ''64082'')])]"]
        http_failure_or_envelope
          [where R = sample_runtime and params = "Some [(''zip'', PStr ''64082'')]"
             and c = sample_client and w = empty_world
             and T = "always (Responds \<lparr> resp_status_code = 404, resp_ok = False,
                        resp_json = Inr (PDict [(''message'', PStr ''no such route'')]) \<rparr>)"
             and r = "\<lparr> resp_status_code = 404, resp_ok = False,
                        resp_json = Inr (PDict [(''message'', PStr ''no such route'')]) \<rparr>"
             and d = "[(''message'', PStr ''no such route'')]"]
  by (simp add: sample_params_valid always_def dict_get_def str_int_404)

text \<open>
  C4 as stated fails on a status code outside 200 to 299 that leaves \<open>ok\<close> set, as 300
  does in \<open>requests\<close>: \<open>execute\<close> returns the envelope.
\<close>

theorem http_300_returns_envelope:
  "\<not> (200 \<le> (300 :: int) \<and> (300 :: int) < 300)
   \<and> fst (execute sample_runtime
          (always (Responds \<lparr> resp_status_code = 300, resp_ok = True,
             resp_json = Inr (PDict [(''status'', PStr ''ok'')]) \<rparr>))
          sample_client (Some [(''zip'', PStr ''64082'')]) empty_world)
     = Inr (PDict [(''status'', PStr ''ok'')])"
  by (simp add: fst_execute_valid [OF sample_params_valid] always_def fst_classify_response
      dict_get_def)

section \<open>Failures of the transport\<close>

text \<open>
  C7, as the code has it: when the parameters are valid and the session raises an exception
  of the \<open>RequestException\<close> hierarchy (a timeout, a connection error or any other),
  \<open>execute\<close> raises a \<open>ZipcodesAPIClientError\<close> whose message is a prefix naming the
  kind of failure followed by the text of the exception, and the exception of the transport
  itself does not leave \<open>execute\<close>; when the session raises an exception of a class
  outside that hierarchy, no \<open>except\<close> clause catches it and it leaves \<open>execute\<close> as
  it was raised.
\<close>

theorem transport_failure_wrapped:
  assumes valid: "validate_params R VALIDATION_RULES params = Inr ()"
  shows "(T (build_request c ''GET'' params) = RaisesRequestException e \<longrightarrow>
            fst (execute R T c params w) =
              Inl (ZipcodesAPIClientError
                     (PStr ((if is_timeout e then ''Request timeout: ''
                             else if is_connection_error e then ''Connection error: ''
                             else ''Request failed: '') @ exc_str e)) None None))
       \<and> (T (build_request c ''GET'' params) = RaisesOther x \<longrightarrow>
            fst (execute R T c params w) = Inl (Uncaught x))"
  by (simp add: fst_execute_valid [OF valid] fst_handle_request_exception)

theorem transport_failure_wrapped_witness:
  "fst (execute sample_runtime
          (always (RaisesRequestException
             \<lparr> is_timeout = True, is_connection_error = False, exc_str = ''read timed out'' \<rparr>))
          sample_client (Some [(''zip'', PStr ''64082'')]) empty_world)
     = Inl (ZipcodesAPIClientError (PStr ''Request timeout: read timed out'') None None)
   \<and> fst (execute sample_runtime
          (always (RaisesRequestException
             \<lparr> is_timeout = False, is_connection_error = True, exc_str = ''refused'' \<rparr>))
          sample_client (Some [(''zip'', PStr ''64082'')]) empty_world)
     = Inl (ZipcodesAPIClientError (PStr ''Connection error: refused'') None None)
   \<and> fst (execute sample_runtime
          (always (RaisesRequestException
             \<lparr> is_timeout = False, is_connection_error = False, exc_str = ''too many redirects'' \<rparr>))
          sample_client (Some [(''zip'', PStr ''64082'')]) empty_world)
     = Inl (ZipcodesAPIClientError (PStr ''Request failed: too many redirects'') None None)
   \<and> fst (execute sample_runtime (always (RaisesOther ''UnicodeEncodeError''))
          sample_client (Some [(''zip'', PStr ''64082'')]) empty_world)
     = Inl (Uncaught ''UnicodeEncodeError'')"
  using transport_failure_wrapped
          [where R = sample_runtime and params = "Some [(''zip'', PStr ''64082'')]"
             and c = sample_client and w = empty_world
             and T = "always (RaisesRequestException
               \<lparr> is_timeout = True, is_connection_error = False, exc_str = ''read timed out'' \<rparr>)"
             and e = "\<lparr> is_timeout = True, is_connection_error = False,
                         exc_str = ''read timed out'' \<rparr>"]
        transport_failure_wrapped
          [where R = sample_runtime and params = "Some [(''zip'', PStr ''64082'')]"
             and c = sample_client and w = empty_world
             and T = "always (RaisesRequestException
               \<lparr> is_timeout = False, is_connection_error = True, exc_str = ''refused'' \<rparr>)"
             and e = "\<lparr> is_timeout = False, is_connection_error = True,
                         exc_str = ''refused'' \<rparr>"]
        transport_failure_wrapped
          [where R = sample_runtime and params = "Some [(''zip'', PStr ''64082'')]"
             and c = sample_client and w = empty_world
             and T = "always (RaisesRequestException
               \<lparr> is_timeout = False, is_connection_error = False,
                 exc_str = ''too many redirects'' \<rparr>)"
             and e = "\<lparr> is_timeout = False, is_connection_error = False,
                         exc_str = ''too many redirects'' \<rparr>"]
        transport_failure_wrapped
          [where R = sample_runtime and params = "Some [(''zip'', PStr ''64082'')]"
             and c = sample_client and w = empty_world
             and T = "always (RaisesOther ''UnicodeEncodeError'')"
             and x = "''UnicodeEncodeError''"]
  by (simp add: sample_params_valid always_def)

text \<open>
  C7 as stated fails on an exception that the session raises from outside the
  \<open>RequestException\<close> hierarchy: it leaves \<open>execute\<close> unwrapped.
\<close>

theorem other_exception_escapes:
  "fst (execute sample_runtime (always (RaisesOther ''UnicodeEncodeError''))
          sample_client (Some [(''zip'', PStr ''64082'')]) empty_world)
     = Inl (Uncaught ''UnicodeEncodeError'')"
  by (simp add: fst_execute_valid [OF sample_params_valid] always_def)

section \<open>The flags debug and secure\<close>

lemma execute_flags:
  assumes "base_url c' = base_url c" and "headers c' = headers c"
  shows "fst (execute R T c' params w) = fst (execute R T c params w)
       \<and> sent (snd (execute R T c' params w)) = sent (snd (execute R T c params w))"
proof (cases "validate_params R VALIDATION_RULES params")
  case (Inl e)
  then show ?thesis by (simp add: execute_invalid)
next
  case (Inr u)
  then have valid: "validate_params R VALIDATION_RULES params = Inr ()" by simp
  have req: "build_request c' ''GET'' params = build_request c ''GET'' params"
    using assms by (simp add: build_request_def)
  show ?thesis
    by (simp add: fst_execute_valid [OF valid] sent_execute_valid [OF valid] req
        fst_classify_response fst_handle_request_exception split: transport_result.splits)
qed

text \<open>
  C9: for every API key, parameters, transport and world, constructing the client with one
  choice of \<open>secure\<close> and \<open>debug\<close> and calling \<open>execute\<close> gives the same returned value
  or raised exception (message, status code and envelope included), and hands the same
  requests to the session, as with any other choice of the two flags.
\<close>

theorem flags_do_not_change_outcome:
  "fst (construct_and_execute R T k sec1 dbg1 params w)
     = fst (construct_and_execute R T k sec2 dbg2 params w)
   \<and> sent (snd (construct_and_execute R T k sec1 dbg1 params w))
     = sent (snd (construct_and_execute R T k sec2 dbg2 params w))"
proof (cases "validate_api_key k")
  case (Inl e)
  then show ?thesis by (simp add: construct_and_execute_def init_def)
next
  case (Inr u)
  then show ?thesis
    using execute_flags [where c' = "\<lparr> api_key = k, secure = sec1, debug = dbg1,
                      base_url = ''https://api.apiverve.com/v1/zipcodes'',
                      headers = [(''x-api-key'', k), (''auth-mode'', ''pypi-package'')] \<rparr>"
                 and c = "\<lparr> api_key = k, secure = sec2, debug = dbg2,
                      base_url = ''https://api.apiverve.com/v1/zipcodes'',
                      headers = [(''x-api-key'', k), (''auth-mode'', ''pypi-package'')] \<rparr>"
                 and R = R and T = T and params = params and w = w]
    by (simp add: construct_and_execute_def init_def)
qed

theorem flags_do_not_change_outcome_witness:
  "fst (construct_and_execute sample_runtime
          (always (Responds \<lparr> resp_status_code = 200, resp_ok = True,
             resp_json = Inr (PDict [(''status'', PStr ''ok'')]) \<rparr>))
          ''0123456789abcdef0123456789abcdef'' True True (Some [(''zip'', PStr ''64082'')])
          empty_world)
     = fst (construct_and_execute sample_runtime
          (always (Responds \<lparr> resp_status_code = 200, resp_ok = True,
             resp_json = Inr (PDict [(''status'', PStr ''ok'')]) \<rparr>))
          ''0123456789abcdef0123456789abcdef'' False False (Some [(''zip'', PStr ''64082'')])
          empty_world)
   \<and> sent (snd (construct_and_execute sample_runtime
          (always (Responds \<lparr> resp_status_code = 200, resp_ok = True,
             resp_json = Inr (PDict [(''status'', PStr ''ok'')]) \<rparr>))
          ''0123456789abcdef0123456789abcdef'' True True (Some [(''zip'', PStr ''64082'')])
          empty_world))
     = sent (snd (construct_and_execute sample_runtime
          (always (Responds \<lparr> resp_status_code = 200, resp_ok = True,
             resp_json = Inr (PDict [(''status'', PStr ''ok'')]) \<rparr>))
          ''0123456789abcdef0123456789abcdef'' False False (Some [(''zip'', PStr ''64082'')])
          empty_world))"
  by (rule flags_do_not_change_outcome)

section \<open>The validator against the expected violations\<close>

lemma numeric_checks_expected:
  "numeric_checks R n r t v errors =
     (case (if t = ''number'' then py_float R v else py_int R v) of
        Coerced x \<Rightarrow> Proceed (errors @ bound_violations R n r x)
      | CoerceFail \<Rightarrow>
          Continue (errors @ [''Parameter ['' @ n @ ''] must be a valid '' @ t @ ''.''])
      | CoerceRaise e \<Rightarrow> Raise (Uncaught e))"
  by (simp add: numeric_checks_def bound_violations_def Let_def
      split: coerced.splits option.splits)

lemma string_checks_expected:
  "string_checks R n r v errors =
     (case v of
        PStr s \<Rightarrow> Proceed (errors @ length_violations n r s @ format_violations R n r s)
      | _ \<Rightarrow> Continue (errors @ [''Parameter ['' @ n @ ''] must be a string.'']))"
  by (simp add: string_checks_def length_violations_def format_violations_def Let_def
      split: pyval.splits option.splits)

lemma type_checks_proceed:
  assumes "\<not> type_stage_ends R t v"
  shows "type_checks R n r t v errors = Proceed (errors @ type_violations R n r t v)"
proof -
  consider (num) "t = ''integer'' \<or> t = ''number''"
    | (str) "t \<noteq> ''integer''" "t \<noteq> ''number''" "t = ''string''"
    | (other) "t \<noteq> ''integer''" "t \<noteq> ''number''" "t \<noteq> ''string''"
    by blast
  then show ?thesis
  proof cases
    case num
    then obtain x where "(if t = ''number'' then py_float R v else py_int R v) = Coerced x"
      using assms
      by (cases "if t = ''number'' then py_float R v else py_int R v")
         (auto simp add: type_stage_ends_def split: if_splits)
    with num show ?thesis
      by (simp add: type_checks_def type_violations_def numeric_checks_expected)
  next
    case str
    then obtain s where "v = PStr s"
      using assms by (cases v) (simp_all add: type_stage_ends_def)
    with str show ?thesis
      by (simp add: type_checks_def type_violations_def string_checks_expected)
  next
    case other
    then show ?thesis
      by (simp add: type_checks_def type_violations_def)
  qed
qed

lemma type_checks_numeric_fail:
  assumes "t = ''integer'' \<and> py_int R v = CoerceFail \<or> t = ''number'' \<and> py_float R v = CoerceFail"
  shows "type_checks R n r t v errors =
           Continue (errors @ [''Parameter ['' @ n @ ''] must be a valid '' @ t @ ''.''])"
proof -
  have num: "t = ''integer'' \<or> t = ''number''"
    using assms by blast
  have "(if t = ''number'' then py_float R v else py_int R v) = CoerceFail"
    using assms by (cases "t = ''number''") simp_all
  then have "numeric_checks R n r t v errors =
      Continue (errors @ [''Parameter ['' @ n @ ''] must be a valid '' @ t @ ''.''])"
    by (simp only: numeric_checks_expected coerced.case)
  then show ?thesis
    unfolding type_checks_def using num by (simp only: if_True)
qed

lemma type_checks_numeric_raise:
  assumes "t = ''integer'' \<and> py_int R v = CoerceRaise e \<or> t = ''number'' \<and> py_float R v = CoerceRaise e"
  shows "type_checks R n r t v errors = Raise (Uncaught e)"
proof -
  have num: "t = ''integer'' \<or> t = ''number''"
    using assms by blast
  have "(if t = ''number'' then py_float R v else py_int R v) = CoerceRaise e"
    using assms by (cases "t = ''number''") simp_all
  then have "numeric_checks R n r t v errors = Raise (Uncaught e)"
    by (simp only: numeric_checks_expected coerced.case)
  then show ?thesis
    unfolding type_checks_def using num by (simp only: if_True)
qed

lemma type_checks_not_string:
  assumes "t = ''string''" and "\<not> is_str v"
  shows "type_checks R n r t v errors =
           Continue (errors @ [''Parameter ['' @ n @ ''] must be a string.''])"
  using assms by (cases v) (simp_all add: type_checks_def string_checks_expected)

lemma type_checks_ends:
  assumes "type_stage_ends R t v"
      and "\<not> (t = ''integer'' \<and> is_raise (py_int R v))"
      and "\<not> (t = ''number'' \<and> is_raise (py_float R v))"
  shows "type_checks R n r t v errors = Continue (errors @ type_violations R n r t v)"
proof -
  consider (int) "t = ''integer''" "py_int R v = CoerceFail"
    | (num) "t = ''number''" "py_float R v = CoerceFail"
    | (str) "t = ''string''" "\<not> is_str v"
    using assms
    by (cases "py_int R v"; cases "py_float R v") (auto simp add: type_stage_ends_def)
  then show ?thesis
  proof cases
    case int
    then show ?thesis
      using type_checks_numeric_fail [of t R v n r errors]
      by (simp add: type_violations_def)
  next
    case num
    then show ?thesis
      using type_checks_numeric_fail [of t R v n r errors]
      by (simp add: type_violations_def)
  next
    case str
    then show ?thesis
      using type_checks_not_string [of t v R n r errors]
      by (cases v) (simp_all add: type_violations_def)
  qed
qed

lemma enum_check_expected:
  "enum_check R n r v errors = errors @ enum_violations R n r v"
  by (simp add: enum_check_def enum_violations_def split: option.splits)

lemma check_param_present:
  assumes "dict_get ps n \<noteq> PNone" and "\<not> (r_required r \<and> dict_get ps n = PStr [])"
  shows "check_param R ps n r errors =
           (case type_checks R n r (case r_type r of None \<Rightarrow> ''string'' | Some t \<Rightarrow> t)
                   (dict_get ps n) errors of
              Proceed errors' \<Rightarrow> Inr (enum_check R n r (dict_get ps n) errors')
            | Continue errors' \<Rightarrow> Inr errors'
            | Raise e \<Rightarrow> Inl e)"
  unfolding check_param_def Let_def using assms by auto

lemma check_param_expected:
  assumes "\<not> coercion_raises R r (dict_get ps n)"
  shows "check_param R ps n r errors = Inr (errors @ expected_violations R n r (dict_get ps n))"
proof -
  define v where "v = dict_get ps n"
  define t where "t = (case r_type r of None \<Rightarrow> ''string'' | Some t \<Rightarrow> t)"
  show ?thesis
  proof (cases "v = PNone \<or> (r_required r \<and> v = PStr [])")
    case True
    then show ?thesis
      by (auto simp add: check_param_def expected_violations_def Let_def v_def)
  next
    case False
    then have present: "dict_get ps n \<noteq> PNone" "\<not> (r_required r \<and> dict_get ps n = PStr [])"
      by (simp_all add: v_def)
    have no_raise: "\<not> (t = ''integer'' \<and> is_raise (py_int R v))"
                   "\<not> (t = ''number'' \<and> is_raise (py_float R v))"
      using assms False by (auto simp add: coercion_raises_def Let_def v_def t_def)
    have ev: "expected_violations R n r v =
        type_violations R n r t v @ (if type_stage_ends R t v then [] else enum_violations R n r v)"
      using False by (auto simp add: expected_violations_def Let_def t_def)
    show ?thesis
    proof (cases "type_stage_ends R t v")
      case True
      from type_checks_ends [OF True no_raise, of n r errors] show ?thesis
        using True ev
        by (simp add: check_param_present [OF present] v_def [symmetric] t_def [symmetric])
    next
      case False
      from type_checks_proceed [OF False, of n r errors] show ?thesis
        using False ev
        by (simp add: check_param_present [OF present] v_def [symmetric] t_def [symmetric]
            enum_check_expected)
    qed
  qed
qed

lemma validate_loop_expected:
  assumes "list_all (\<lambda>(n, r). \<not> coercion_raises R r (dict_get ps n)) table"
  shows "validate_loop R ps table errors =
           Inr (errors @ concat (map (\<lambda>(n, r). expected_violations R n r (dict_get ps n)) table))"
  using assms
proof (induction table arbitrary: errors)
  case Nil
  then show ?case by simp
next
  case (Cons item table)
  obtain n r where item: "item = (n, r)" by (cases item)
  from Cons.prems have here: "\<not> coercion_raises R r (dict_get ps n)"
    and rest: "list_all (\<lambda>(n, r). \<not> coercion_raises R r (dict_get ps n)) table"
    by (simp_all add: item)
  show ?case
    by (simp add: item check_param_expected [OF here] Cons.IH [OF rest])
qed

lemma validate_params_expected:
  assumes "list_all (\<lambda>(n, r). \<not> coercion_raises R r
             (dict_get (case params of None \<Rightarrow> [] | Some d \<Rightarrow> d) n)) table"
  shows "validate_params R table params =
           verdict (concat (map (\<lambda>(n, r). expected_violations R n r
                      (dict_get (case params of None \<Rightarrow> [] | Some d \<Rightarrow> d) n)) table))"
proof -
  have "(case params of None \<Rightarrow> [] | Some d \<Rightarrow> if d = [] then [] else d)
          = (case params of None \<Rightarrow> [] | Some d \<Rightarrow> d)"
    by (simp split: option.splits)
  then show ?thesis
    using validate_loop_expected [OF assms, of "[]"]
    by (cases "table = []") (simp_all add: validate_params_def verdict_def Let_def)
qed




lemma sample_table_never_raises:
  "list_all (\<lambda>(n, r). \<not> coercion_raises sample_runtime r (dict_get ps n)) sample_table"
  by (auto simp add: sample_table_def sample_zip_rule_def sample_units_rule_def
      sample_radius_rule_def sample_country_rule_def coercion_raises_def sample_runtime_def
      split: pyval.splits)




section \<open>The enum check\<close>

lemma expected_violations_enum:
  assumes "r_enum r = Some allowed" and "v \<noteq> PNone" and "\<not> (r_required r \<and> v = PStr [])"
      and "\<not> py_in v allowed"
      and "\<not> type_stage_ends R (case r_type r of None \<Rightarrow> ''string'' | Some t \<Rightarrow> t) v"
  shows "expected_violations R n r v =
           type_violations R n r (case r_type r of None \<Rightarrow> ''string'' | Some t \<Rightarrow> t) v
           @ [enum_message R n allowed]"
  using assms by (auto simp add: expected_violations_def enum_violations_def Let_def)

lemma not_ends_not_raises:
  assumes "\<not> type_stage_ends R (case r_type r of None \<Rightarrow> ''string'' | Some t \<Rightarrow> t) v"
  shows "\<not> coercion_raises R r v"
proof -
  have "is_raise c \<Longrightarrow> \<not> is_coerced c" for c :: "'a coerced"
    by (cases c) simp_all
  then show ?thesis
    using assms by (auto simp add: coercion_raises_def type_stage_ends_def Let_def)
qed

text \<open>
  C6, as the code has it: for a parameter whose rule has an \<open>enum\<close> list and whose value
  is present (not \<open>None\<close>, and not the empty string under a required rule) and not in the
  list, the body of the loop adds the type message alone, without the enum message, when
  the coercion of a number fails with \<open>ValueError\<close> or \<open>TypeError\<close> and when the value
  is not a string under the type \<open>string\<close>; it adds nothing when the coercion raises
  another exception, which leaves the validator; in every other case (after a boolean or
  array mismatch and after violations of bounds, lengths and formats too) it adds the
  messages of the type-specific step followed by the enum message, and on a table where no
  coercion raises such an exception the validator then raises a \<open>ValidationError\<close> that
  carries the enum message.
\<close>

theorem enum_checked_unless_skipped:
  assumes enum: "r_enum r = Some allowed"
      and v: "v = dict_get ps n"
      and present: "v \<noteq> PNone"
      and nonempty: "\<not> (r_required r \<and> v = PStr [])"
      and outside: "\<not> py_in v allowed"
      and t: "t = (case r_type r of None \<Rightarrow> ''string'' | Some t \<Rightarrow> t)"
  shows "(t = ''integer'' \<and> py_int R v = CoerceFail \<or> t = ''number'' \<and> py_float R v = CoerceFail
            \<longrightarrow> check_param R ps n r errors =
                  Inr (errors @ [''Parameter ['' @ n @ ''] must be a valid '' @ t @ ''.'']))
       \<and> (t = ''string'' \<and> \<not> is_str v
            \<longrightarrow> check_param R ps n r errors =
                  Inr (errors @ [''Parameter ['' @ n @ ''] must be a string.'']))
       \<and> (t = ''integer'' \<and> py_int R v = CoerceRaise e \<or> t = ''number'' \<and> py_float R v = CoerceRaise e
            \<longrightarrow> check_param R ps n r errors = Inl (Uncaught e))
       \<and> (\<not> type_stage_ends R t v
            \<longrightarrow> check_param R ps n r errors =
                  Inr (errors @ type_violations R n r t v @ [enum_message R n allowed]))
       \<and> (\<not> type_stage_ends R t v \<and> (n, r) \<in> set table
            \<and> ps = (case params of None \<Rightarrow> [] | Some d \<Rightarrow> d)
            \<and> list_all (\<lambda>(n, r). \<not> coercion_raises R r (dict_get ps n)) table
            \<longrightarrow> (\<exists>errs. validate_params R table params = Inl (ValidationError errs)
                         \<and> enum_message R n allowed \<in> set errs))"
proof -
  have here: "dict_get ps n \<noteq> PNone" "\<not> (r_required r \<and> dict_get ps n = PStr [])"
    using present nonempty by (simp_all add: v)
  note body = check_param_present [OF here, of R errors, folded t v]
  have fail: "check_param R ps n r errors =
      Inr (errors @ [''Parameter ['' @ n @ ''] must be a valid '' @ t @ ''.''])"
    if "t = ''integer'' \<and> py_int R v = CoerceFail \<or> t = ''number'' \<and> py_float R v = CoerceFail"
    using type_checks_numeric_fail [OF that, of n r errors] by (simp add: body)
  have nostr: "check_param R ps n r errors =
      Inr (errors @ [''Parameter ['' @ n @ ''] must be a string.''])"
    if "t = ''string'' \<and> \<not> is_str v"
    using type_checks_not_string [of t v R n r errors] that by (simp add: body)
  have raise: "check_param R ps n r errors = Inl (Uncaught e)"
    if "t = ''integer'' \<and> py_int R v = CoerceRaise e \<or> t = ''number'' \<and> py_float R v = CoerceRaise e"
    using type_checks_numeric_raise [OF that, of n r errors] by (simp add: body)
  have applied: "check_param R ps n r errors =
      Inr (errors @ type_violations R n r t v @ [enum_message R n allowed])"
    if "\<not> type_stage_ends R t v"
    using type_checks_proceed [OF that, of n r errors] enum outside
    by (simp add: body enum_check_expected enum_violations_def)
  have lifted: "\<exists>errs. validate_params R table params = Inl (ValidationError errs)
                         \<and> enum_message R n allowed \<in> set errs"
    if ends: "\<not> type_stage_ends R t v" and mem: "(n, r) \<in> set table"
      and ps: "ps = (case params of None \<Rightarrow> [] | Some d \<Rightarrow> d)"
      and quiet: "list_all (\<lambda>(n, r). \<not> coercion_raises R r (dict_get ps n)) table"
  proof -
    let ?all = "concat (map (\<lambda>(n, r). expected_violations R n r (dict_get ps n)) table)"
    have "validate_params R table params = verdict ?all"
      using quiet unfolding ps by (rule validate_params_expected)
    moreover have "enum_message R n allowed \<in> set (expected_violations R n r (dict_get ps n))"
      using expected_violations_enum [OF enum present nonempty outside, of R n] ends
      by (simp add: t v)
    then have inall: "enum_message R n allowed \<in> set ?all"
      using mem by auto
    then have "?all \<noteq> []"
      by (cases ?all) simp_all
    then have "verdict ?all = Inl (ValidationError ?all)"
      by (simp only: verdict_def if_False)
    ultimately show ?thesis
      using inall by (intro exI [of _ ?all]) simp
  qed
  show ?thesis
    using fail nostr raise applied lifted by blast
qed

theorem enum_checked_unless_skipped_witness:
  "check_param sample_runtime [(''units'', PStr ''metric'')] ''units'' sample_units_rule []
     = Inr [''Parameter [units] must be a boolean.'',
            ''Parameter [units] must be one of: true, false.'']
   \<and> check_param sample_runtime [(''radius'', PStr ''abc'')] ''radius'' sample_radius_rule []
     = Inr [''Parameter [radius] must be a valid integer.'']
   \<and> check_param sample_runtime [(''zip'', PInt 7)] ''zip'' sample_zip_rule []
     = Inr [''Parameter [zip] must be a string.'']
   \<and> (\<exists>errs. validate_params sample_runtime sample_table (Some [(''units'', PStr ''metric'')])
                 = Inl (ValidationError errs)
               \<and> ''Parameter [units] must be one of: true, false.'' \<in> set errs)"
proof -
  have units: "\<not> type_stage_ends sample_runtime ''boolean'' (PStr ''metric'')"
    by (simp add: type_stage_ends_def)
  note u = enum_checked_unless_skipped
      [where r = sample_units_rule and allowed = "[PStr ''true'', PStr ''false'']"
         and v = "PStr ''metric''" and ps = "[(''units'', PStr ''metric'')]" and n = "''units''"
         and t = "''boolean''" and R = sample_runtime and errors = "[]" and e = "[]"
         and table = sample_table and params = "Some [(''units'', PStr ''metric'')]"]
  have u_hyps: "r_enum sample_units_rule = Some [PStr ''true'', PStr ''false'']"
    "PStr ''metric'' = dict_get [(''units'', PStr ''metric'')] ''units''"
    "PStr ''metric'' \<noteq> PNone"
    "\<not> (r_required sample_units_rule \<and> PStr ''metric'' = PStr [])"
    "\<not> py_in (PStr ''metric'') [PStr ''true'', PStr ''false'']"
    "''boolean'' = (case r_type sample_units_rule of None \<Rightarrow> ''string'' | Some t \<Rightarrow> t)"
    by (simp_all add: sample_units_rule_def dict_get_def py_in_def)
  have c1: "check_param sample_runtime [(''units'', PStr ''metric'')] ''units''
              sample_units_rule []
            = Inr [''Parameter [units] must be a boolean.'',
                   ''Parameter [units] must be one of: true, false.'']"
    using conjunct1 [OF conjunct2 [OF conjunct2 [OF conjunct2 [OF u [OF u_hyps]]]]] units
    by (simp add: type_violations_def enum_message_def py_in_def sample_runtime_def)
  have c4: "\<exists>errs. validate_params sample_runtime sample_table
                      (Some [(''units'', PStr ''metric'')]) = Inl (ValidationError errs)
               \<and> ''Parameter [units] must be one of: true, false.'' \<in> set errs"
    using conjunct2 [OF conjunct2 [OF conjunct2 [OF conjunct2 [OF u [OF u_hyps]]]]] units
          sample_table_never_raises [of "[(''units'', PStr ''metric'')]"]
    by (simp add: sample_table_def enum_message_def sample_runtime_def)
  note rd = enum_checked_unless_skipped
      [where r = sample_radius_rule and allowed = "[PInt 5, PInt 10]"
         and v = "PStr ''abc''" and ps = "[(''radius'', PStr ''abc'')]" and n = "''radius''"
         and t = "''integer''" and R = sample_runtime and errors = "[]" and e = "[]"
         and table = sample_table and params = "Some [(''radius'', PStr ''abc'')]"]
  have rd_hyps: "r_enum sample_radius_rule = Some [PInt 5, PInt 10]"
    "PStr ''abc'' = dict_get [(''radius'', PStr ''abc'')] ''radius''"
    "PStr ''abc'' \<noteq> PNone"
    "\<not> (r_required sample_radius_rule \<and> PStr ''abc'' = PStr [])"
    "\<not> py_in (PStr ''abc'') [PInt 5, PInt 10]"
    "''integer'' = (case r_type sample_radius_rule of None \<Rightarrow> ''string'' | Some t \<Rightarrow> t)"
    by (simp_all add: sample_radius_rule_def dict_get_def py_in_def)
  have rd_fail: "py_int sample_runtime (PStr ''abc'') = CoerceFail"
    by (simp add: sample_runtime_def)
  have c2: "check_param sample_runtime [(''radius'', PStr ''abc'')] ''radius''
              sample_radius_rule []
            = Inr [''Parameter [radius] must be a valid integer.'']"
    using conjunct1 [OF rd [OF rd_hyps]] rd_fail by simp
  note zp = enum_checked_unless_skipped
      [where r = sample_zip_rule and allowed = "[PStr ''64082'', PStr ''64083'']"
         and v = "PInt 7" and ps = "[(''zip'', PInt 7)]" and n = "''zip''"
         and t = "''string''" and R = sample_runtime and errors = "[]" and e = "[]"
         and table = sample_table and params = "Some [(''zip'', PInt 7)]"]
  have zp_hyps: "r_enum sample_zip_rule = Some [PStr ''64082'', PStr ''64083'']"
    "PInt 7 = dict_get [(''zip'', PInt 7)] ''zip''"
    "PInt 7 \<noteq> PNone"
    "\<not> (r_required sample_zip_rule \<and> PInt 7 = PStr [])"
    "\<not> py_in (PInt 7) [PStr ''64082'', PStr ''64083'']"
    "''string'' = (case r_type sample_zip_rule of None \<Rightarrow> ''string'' | Some t \<Rightarrow> t)"
    by (simp_all add: sample_zip_rule_def dict_get_def py_in_def)
  have c3: "check_param sample_runtime [(''zip'', PInt 7)] ''zip'' sample_zip_rule []
            = Inr [''Parameter [zip] must be a string.'']"
    using conjunct1 [OF conjunct2 [OF zp [OF zp_hyps]]] by simp
  show ?thesis
    using c1 c2 c3 c4 by blast
qed

text \<open>
  C6 as stated fails when the type check of a string parameter fails: the integer 7 is not
  in the enumeration of \<open>zip\<close>, and the only message is the one of the type check.
\<close>

theorem enum_skipped_after_type_mismatch:
  "\<not> py_in (PInt 7) [PStr ''64082'', PStr ''64083'']
   \<and> validate_params sample_runtime sample_table
       (Some [(''zip'', PInt 7), (''country'', PStr ''US'')])
     = Inl (ValidationError [''Parameter [zip] must be a string.''])
   \<and> enum_message sample_runtime ''zip'' [PStr ''64082'', PStr ''64083'']
       \<notin> set [''Parameter [zip] must be a string.'']"
  by (simp add: validate_params_def sample_table_def sample_zip_rule_def sample_units_rule_def
      sample_radius_rule_def sample_country_rule_def check_param_def type_checks_def
      string_checks_def enum_check_def enum_message_def py_in_def dict_get_def
      sample_runtime_def Let_def)

end
